theory Spec2Isabelle
  imports Complex_Main "HOL-Library.AList"
begin

section \<open>JavaScript values\<close>

text \<open>
  The test-data records are plain JavaScript objects. A value is undefined, null, a
  primitive, or an object. An object is represented by its own enumerable string-keyed
  properties in insertion order, which is all that the spread \<^verbatim>\<open>{ ...target }\<close>, the
  \<^verbatim>\<open>for (const key in source)\<close> loop and the index expressions of
  \<^verbatim>\<open>utils/testDataManager.ts\<close> observe. Arrays and \<^verbatim>\<open>Date\<close> objects are objects as well
  (\<^verbatim>\<open>typeof\<close> answers \<^verbatim>\<open>'object'\<close> for both): an array has its indices as keys, a
  \<^verbatim>\<open>Date\<close> has no enumerable property and carries its time value in its kind.
  Prototype chains are not modelled.
\<close>

datatype objkind = PlainObject | ArrayObject | DateObject int

datatype jsval =
    JUndefined
  | JNull
  | JBool bool
  | JNum int
  | JStr string
  | JObj objkind "(string \<times> jsval) list"

type_synonym props = "(string \<times> jsval) list"

fun typeof :: "jsval \<Rightarrow> string" where
  "typeof JUndefined = ''undefined''"
| "typeof JNull = ''object''"
| "typeof (JBool _) = ''boolean''"
| "typeof (JNum _) = ''number''"
| "typeof (JStr _) = ''string''"
| "typeof (JObj _ _) = ''object''"

fun own_props :: "jsval \<Rightarrow> props" where
  "own_props (JObj _ ps) = ps"
| "own_props _ = []"

text \<open>\<^verbatim>\<open>obj[key]\<close>: the value stored under the key, \<^verbatim>\<open>undefined\<close> when there is none.\<close>

definition getp :: "props \<Rightarrow> string \<Rightarrow> jsval" where
  "getp ps key = (case map_of ps key of None \<Rightarrow> JUndefined | Some v \<Rightarrow> v)"

text \<open>
  \<^verbatim>\<open>obj[key] = v\<close> is \<^const>\<open>AList.update\<close>: an existing key keeps its position, a new
  key goes to the end.
\<close>

section \<open>deepMerge (utils/testDataManager.ts, lines 9-28)\<close>

text \<open>
  \<^verbatim>\<open>
  function deepMerge<T>(target: T, source: DeepPartial<T>): T {
    const result = { ...target };
    for (const key in source) {
      if (source[key] !== undefined) {
        if (typeof source[key] === 'object' && source[key] !== null &&
            typeof target[key] === 'object' && target[key] !== null) {
          (result as any)[key] = deepMerge(target[key], source[key] as any);
        } else {
          (result as any)[key] = source[key];
        }
      }
    }
    return result;
  }
  \<close>
  The loop walks the keys of \<open>source\<close> and reads \<open>source[key]\<close> and \<open>target[key]\<close>;
  the fold starts from the copy of \<open>target\<close>. The result of a recursive call is the
  copy made by the spread, a plain object.
\<close>

function deepMerge :: "props \<Rightarrow> props \<Rightarrow> props" where
  "deepMerge target source =
     fold (\<lambda>key result.
        if getp source key \<noteq> JUndefined then
          (if typeof (getp source key) = ''object'' \<and> getp source key \<noteq> JNull \<and>
              typeof (getp target key) = ''object'' \<and> getp target key \<noteq> JNull
           then AList.update key
                  (JObj PlainObject
                     (deepMerge (own_props (getp target key)) (own_props (getp source key))))
                  result
           else AList.update key (getp source key) result)
        else result)
      (map fst source) target"
  by pat_completeness auto
termination
proof (relation "measure (\<lambda>(t, s). size_list (size_prod (\<lambda>_. 0) size) s)")
  show "wf (measure (\<lambda>(t, s). size_list (size_prod (\<lambda>_. 0) size) s))"
    by simp
next
  fix target source :: props and key :: string and result :: props
  assume defined: "getp source key \<noteq> JUndefined"
  have below: "size v < size_list (size_prod (\<lambda>_. 0) size) ps"
    if "map_of ps k = Some v" for ps :: props and k v
    using that by (induction ps) (auto split: if_splits)
  have inner: "size_list (size_prod (\<lambda>_. 0) size) (own_props v) \<le> size v" for v
    by (cases v) auto
  from defined obtain v where v: "map_of source key = Some v" "getp source key = v"
    by (auto simp: getp_def split: option.splits)
  from below[OF v(1)] inner[of v] v(2)
  show "((own_props (getp target key), own_props (getp source key)), (target, source))
          \<in> measure (\<lambda>(t, s). size_list (size_prod (\<lambda>_. 0) size) s)"
    by simp
qed

declare deepMerge.simps [simp del]

text \<open>The value the loop body stores under a key whose override is defined.\<close>

definition merged_value :: "props \<Rightarrow> props \<Rightarrow> string \<Rightarrow> jsval" where
  "merged_value target source key =
     (if typeof (getp source key) = ''object'' \<and> getp source key \<noteq> JNull \<and>
         typeof (getp target key) = ''object'' \<and> getp target key \<noteq> JNull
      then JObj PlainObject (deepMerge (own_props (getp target key)) (own_props (getp source key)))
      else getp source key)"


section \<open>Numbers in template literals\<close>

text \<open>
  \<^verbatim>\<open>`${n}`\<close> for an integer \<open>n\<close> is its decimal numeral, with a minus sign when negative.
\<close>

definition digit_char :: "nat \<Rightarrow> char" where
  "digit_char d = ''0123456789'' ! d"

function decimal :: "nat \<Rightarrow> string" where
  "decimal n = (if n < 10 then [digit_char n] else decimal (n div 10) @ [digit_char (n mod 10)])"
  by pat_completeness auto
termination
  by (relation "measure (\<lambda>n. n)") auto

declare decimal.simps [simp del]

definition number_to_string :: "int \<Rightarrow> string" where
  "number_to_string i = (if i < 0 then ''-'' @ decimal (nat (- i)) else decimal (nat i))"

section \<open>The customer generator (utils/testDataManager.ts, lines 153-207 and 345-347)\<close>

text \<open>
  The values drawn from the fake-data library, one field per call in
  \<^verbatim>\<open>generateInsuranceCustomer\<close>, in the order of the calls. The library promises that
  \<^verbatim>\<open>faker.number.int({ min, max })\<close> returns an integer between the two bounds, both
  included.
\<close>

record faker_draws =
  f_firstName :: string
  f_lastName :: string
  f_birthdate :: int
  f_email :: string
  f_phone :: string
  f_ssn_area :: int
  f_ssn_group :: int
  f_ssn_serial :: int
  f_maritalStatus :: string
  f_gender :: string
  f_street :: string
  f_city :: string
  f_state :: string
  f_zipCode :: string
  f_company :: string
  f_position :: string
  f_industry :: string
  f_employmentIncome :: int
  f_employmentType :: string
  f_yearsAtJob :: int
  f_creditScore :: int
  f_financialIncome :: int
  f_monthlyDebt :: int
  f_bankAccount :: string
  f_routingNumber :: string

definition faker_number_int :: "int \<Rightarrow> int \<Rightarrow> int \<Rightarrow> bool" where
  "faker_number_int lo hi x = (lo \<le> x \<and> x \<le> hi)"

text \<open>
  \<^verbatim>\<open>
  private generateSSN(): string {
    return `${faker.number.int({ min: 100, max: 999 })}-${faker.number.int({ min: 10, max: 99 })}-${faker.number.int({ min: 1000, max: 9999 })}`;
  }
  \<close>
\<close>

definition generateSSN :: "int \<Rightarrow> int \<Rightarrow> int \<Rightarrow> string" where
  "generateSSN area grp serial =
     number_to_string area @ ''-'' @ number_to_string grp @ ''-'' @ number_to_string serial"

text \<open>The string held by a string value (the address fields are strings).\<close>

fun str_of :: "jsval \<Rightarrow> string" where
  "str_of (JStr s) = s"
| "str_of _ = []"

text \<open>
  \<open>getFullYear\<close> is the calendar year of a time value in the local time zone and \<open>now\<close>
  the time of the call; both belong to the runtime. The record is built with an empty
  \<open>fullAddress\<close>, which is then assigned from the address fields of the record, and the
  overrides are merged last.
\<close>

definition generateInsuranceCustomer ::
  "(int \<Rightarrow> int) \<Rightarrow> int \<Rightarrow> faker_draws \<Rightarrow> props \<Rightarrow> props" where
  "generateInsuranceCustomer getFullYear now d overrides =
     (let firstName = f_firstName d;
          lastName = f_lastName d;
          dateOfBirth = f_birthdate d;
          age = getFullYear now - getFullYear dateOfBirth;
          customer =
            [(''personalInfo'', JObj PlainObject
               [(''firstName'', JStr firstName),
                (''lastName'', JStr lastName),
                (''fullName'', JStr (firstName @ '' '' @ lastName)),
                (''email'', JStr (f_email d)),
                (''phone'', JStr (f_phone d)),
                (''dateOfBirth'', JObj (DateObject dateOfBirth) []),
                (''age'', JNum age),
                (''ssn'', JStr (generateSSN (f_ssn_area d) (f_ssn_group d) (f_ssn_serial d))),
                (''maritalStatus'', JStr (f_maritalStatus d)),
                (''gender'', JStr (f_gender d))]),
             (''address'', JObj PlainObject
               [(''street'', JStr (f_street d)),
                (''city'', JStr (f_city d)),
                (''state'', JStr (f_state d)),
                (''zipCode'', JStr (f_zipCode d)),
                (''country'', JStr ''USA''),
                (''fullAddress'', JStr '''')]),
             (''employment'', JObj PlainObject
               [(''company'', JStr (f_company d)),
                (''position'', JStr (f_position d)),
                (''industry'', JStr (f_industry d)),
                (''annualIncome'', JNum (f_employmentIncome d)),
                (''employmentType'', JStr (f_employmentType d)),
                (''yearsAtJob'', JNum (f_yearsAtJob d))]),
             (''financials'', JObj PlainObject
               [(''creditScore'', JNum (f_creditScore d)),
                (''annualIncome'', JNum (f_financialIncome d)),
                (''monthlyDebt'', JNum (f_monthlyDebt d)),
                (''bankAccount'', JStr (f_bankAccount d)),
                (''routingNumber'', JStr (f_routingNumber d))])];
          address = own_props (getp customer ''address'');
          fullAddress =
            str_of (getp address ''street'') @ '', '' @ str_of (getp address ''city'') @ '', '' @
            str_of (getp address ''state'') @ '' '' @ str_of (getp address ''zipCode'');
          customer' =
            AList.update ''address''
              (JObj PlainObject (AList.update ''fullAddress'' (JStr fullAddress) address)) customer
      in deepMerge customer' overrides)"

text \<open>
  An SSN-shaped string: three digits, a hyphen, two digits, a hyphen, four digits.
\<close>

definition is_digit :: "char \<Rightarrow> bool" where
  "is_digit c = (c \<in> set ''0123456789'')"

definition ssn_shaped :: "string \<Rightarrow> bool" where
  "ssn_shaped s =
     (length s = 11 \<and> list_all is_digit (take 3 s) \<and> s ! 3 = CHR ''-'' \<and>
      list_all is_digit (take 2 (drop 4 s)) \<and> s ! 6 = CHR ''-'' \<and>
      list_all is_digit (drop 7 s))"

text \<open>A fixed set of draws and a fixed clock, for the examples.\<close>

definition draws0 :: faker_draws where
  "draws0 =
     \<lparr>f_firstName = ''Ada'', f_lastName = ''Byron'', f_birthdate = 0,
      f_email = ''ada.byron@example.com'', f_phone = ''555-0100'',
      f_ssn_area = 123, f_ssn_group = 45, f_ssn_serial = 6789,
      f_maritalStatus = ''single'', f_gender = ''female'',
      f_street = ''1 Main St'', f_city = ''Springfield'', f_state = ''IL'',
      f_zipCode = ''62701'',
      f_company = ''Acme'', f_position = ''Engineer'', f_industry = ''synergy'',
      f_employmentIncome = 50000, f_employmentType = ''full-time'', f_yearsAtJob = 3,
      f_creditScore = 700, f_financialIncome = 50000, f_monthlyDebt = 100,
      f_bankAccount = ''0123456789'', f_routingNumber = ''021000021''\<rparr>"

definition year0 :: "int \<Rightarrow> int" where
  "year0 t = 1970 + t div 31556952000"

text \<open>The fields the claims read, and the overrides used in the examples.\<close>

definition ssn_field :: "props \<Rightarrow> jsval" where
  "ssn_field customer = getp (own_props (getp customer ''personalInfo'')) ''ssn''"

fun ssn_shaped_value :: "jsval \<Rightarrow> bool" where
  "ssn_shaped_value (JStr s) = ssn_shaped s"
| "ssn_shaped_value _ = False"

definition address_field :: "props \<Rightarrow> string \<Rightarrow> jsval" where
  "address_field customer key = getp (own_props (getp customer ''address'')) key"

definition generated_fullAddress :: "faker_draws \<Rightarrow> string" where
  "generated_fullAddress d =
     f_street d @ '', '' @ f_city d @ '', '' @ f_state d @ '' '' @ f_zipCode d"



definition city_override :: props where
  "city_override = [(''address'', JObj PlainObject [(''city'', JStr ''Chicago'')])]"

definition fullAddress_override :: props where
  "fullAddress_override = [(''address'', JObj PlainObject [(''fullAddress'', JStr ''custom'')])]"

definition ssn_override :: props where
  "ssn_override = [(''personalInfo'', JObj PlainObject [(''ssn'', JStr ''n/a'')])]"

section \<open>Configuration (utils/configManager.ts)\<close>

text \<open>
  \<^verbatim>\<open>process.env\<close> maps variable names to strings; a variable that is not set reads as
  \<^verbatim>\<open>undefined\<close>. \<^verbatim>\<open>process.env.X || 'd'\<close> falls back to the default when the variable
  is not set or is the empty string.
\<close>

type_synonym env = "string \<rightharpoonup> string"

definition or_default :: "string option \<Rightarrow> string \<Rightarrow> string" where
  "or_default v d = (case v of None \<Rightarrow> d | Some s \<Rightarrow> if s = [] then d else s)"

text \<open>
  Numbers read from the environment are results of \<^verbatim>\<open>parseInt\<close>: an integer or
  \<^verbatim>\<open>NaN\<close>. Every comparison with \<^verbatim>\<open>NaN\<close> is false. The rounding of very long digit
  strings to a double is monotone and keeps every integer below \<open>2^53\<close>, so comparing with
  320, 240 and 1000 on the integer gives the answer of the program.
\<close>

datatype jsnum = NaN | Num int

fun js_lt :: "jsnum \<Rightarrow> jsnum \<Rightarrow> bool" where
  "js_lt (Num a) (Num b) = (a < b)"
| "js_lt _ _ = False"

definition is_space :: "char \<Rightarrow> bool" where
  "is_space c = (c \<in> set [CHR 0x09, CHR 0x0A, CHR 0x0B, CHR 0x0C, CHR 0x0D, CHR '' ''])"

definition digit_value :: "char \<Rightarrow> nat option" where
  "digit_value c =
     (let n = (of_char c :: nat) in
      if 48 \<le> n \<and> n \<le> 57 then Some (n - 48)
      else if 97 \<le> n \<and> n \<le> 102 then Some (n - 87)
      else if 65 \<le> n \<and> n \<le> 70 then Some (n - 55)
      else None)"

definition radix_digit :: "nat \<Rightarrow> char \<Rightarrow> bool" where
  "radix_digit radix c = (case digit_value c of None \<Rightarrow> False | Some v \<Rightarrow> v < radix)"

definition digits_value :: "nat \<Rightarrow> string \<Rightarrow> nat" where
  "digits_value radix z = foldl (\<lambda>acc c. acc * radix + the (digit_value c)) 0 z"

text \<open>
  \<^verbatim>\<open>parseInt(s)\<close> without a radix, on ASCII strings: leading white space is skipped, a
  sign is read, a prefix \<^verbatim>\<open>0x\<close> or \<^verbatim>\<open>0X\<close> selects radix 16, and the longest run of digits
  is the value; no digit gives \<^verbatim>\<open>NaN\<close>.
\<close>

definition parseInt :: "string \<Rightarrow> jsnum" where
  "parseInt s =
     (let s1 = dropWhile is_space s;
          negative = (take 1 s1 = ''-'');
          s2 = (if take 1 s1 = ''-'' \<or> take 1 s1 = ''+'' then drop 1 s1 else s1);
          hex = (take 2 s2 = ''0x'' \<or> take 2 s2 = ''0X'');
          radix = (if hex then 16 else 10);
          s3 = (if hex then drop 2 s2 else s2);
          z = takeWhile (radix_digit radix) s3
      in if z = [] then NaN
         else Num ((if negative then - 1 else 1) * int (digits_value radix z)))"

definition startsWith :: "string \<Rightarrow> string \<Rightarrow> bool" where
  "startsWith s p = (take (length p) s = p)"

fun join :: "string \<Rightarrow> string list \<Rightarrow> string" where
  "join sep [] = []"
| "join sep [x] = x"
| "join sep (x # y # ys) = x @ sep @ join sep (y # ys)"

record browser_config =
  bc_browser :: string
  bc_headless :: bool
  bc_viewport_width :: jsnum
  bc_viewport_height :: jsnum
  bc_timeout :: jsnum
  bc_slowMo :: jsnum
  bc_recordVideo :: bool
  bc_recordTrace :: bool

record test_config =
  tc_baseURL :: string
  tc_timeout :: jsnum
  tc_retries :: jsnum
  tc_parallel :: jsnum
  tc_tags :: string

text \<open>
  \<^verbatim>\<open>
  getBrowserConfig(): BrowserConfig {
    return {
      browser: (process.env.BROWSER as any) || 'chromium',
      headless: process.env.HEADLESS !== 'false',
      viewport: {
        width: parseInt(process.env.VIEWPORT_WIDTH || '1920'),
        height: parseInt(process.env.VIEWPORT_HEIGHT || '1080'),
      },
      timeout: parseInt(process.env.TIMEOUT || '60000'),
      slowMo: parseInt(process.env.SLOW_MO || '0'),
      recordVideo: process.env.RECORD_VIDEO === 'true',
      recordTrace: process.env.RECORD_TRACE === 'true',
    };
  }
  \<close>
\<close>

definition getBrowserConfig :: "env \<Rightarrow> browser_config" where
  "getBrowserConfig e =
     \<lparr>bc_browser = or_default (e ''BROWSER'') ''chromium'',
      bc_headless = (e ''HEADLESS'' \<noteq> Some ''false''),
      bc_viewport_width = parseInt (or_default (e ''VIEWPORT_WIDTH'') ''1920''),
      bc_viewport_height = parseInt (or_default (e ''VIEWPORT_HEIGHT'') ''1080''),
      bc_timeout = parseInt (or_default (e ''TIMEOUT'') ''60000''),
      bc_slowMo = parseInt (or_default (e ''SLOW_MO'') ''0''),
      bc_recordVideo = (e ''RECORD_VIDEO'' = Some ''true''),
      bc_recordTrace = (e ''RECORD_TRACE'' = Some ''true'')\<rparr>"

definition getTestConfig :: "env \<Rightarrow> test_config" where
  "getTestConfig e =
     \<lparr>tc_baseURL = or_default (e ''BASE_URL'') ''http://localhost:3000'',
      tc_timeout = parseInt (or_default (e ''TIMEOUT'') ''60000''),
      tc_retries = parseInt (or_default (e ''RETRIES'') ''0''),
      tc_parallel = parseInt (or_default (e ''PARALLEL'') ''1''),
      tc_tags = or_default (e ''TAGS'') []\<rparr>"

definition isDebugMode :: "env \<Rightarrow> bool" where
  "isDebugMode e = (e ''DEBUG'' = Some ''true'')"

text \<open>A thrown \<^verbatim>\<open>Error\<close> is its message.\<close>

datatype js_error = Error string

fun error_message :: "js_error \<Rightarrow> string" where
  "error_message (Error m) = m"

definition validBrowsers :: "string list" where
  "validBrowsers = [''chromium'', ''firefox'', ''webkit'', ''chrome'']"

text \<open>
  \<^verbatim>\<open>validateConfig\<close> (lines 125-149) returns the warnings it printed and either the
  error it threw or nothing. The check of the timeout stands between the check of the
  base URL and the check of the viewport, and only warns.
\<close>

definition validateConfig :: "env \<Rightarrow> string list \<times> (js_error + unit)" where
  "validateConfig e =
     (let browserConfig = getBrowserConfig e in
      if bc_browser browserConfig \<notin> set validBrowsers then
        ([], Inl (Error (''Invalid browser: '' @ bc_browser browserConfig @
                         ''. Valid options: '' @ join '', '' validBrowsers)))
      else
        let testConfig = getTestConfig e in
        if \<not> startsWith (tc_baseURL testConfig) ''http'' then
          ([], Inl (Error (''Invalid BASE_URL: '' @ tc_baseURL testConfig @
                           ''. Must start with http:// or https://'')))
        else
          let warnings =
                (if js_lt (bc_timeout browserConfig) (Num 1000)
                 then [''Warning: Timeout is less than 1 second, this might cause issues'']
                 else [])
          in if js_lt (bc_viewport_width browserConfig) (Num 320) \<or>
                js_lt (bc_viewport_height browserConfig) (Num 240)
             then (warnings,
                   Inl (Error ''Viewport dimensions are too small. Minimum 320x240 required''))
             else (warnings, Inr ()))"

definition env0 :: env where
  "env0 = [''BROWSER'' \<mapsto> ''firefox'', ''BASE_URL'' \<mapsto> ''https://example.org'',
           ''VIEWPORT_WIDTH'' \<mapsto> ''1280'', ''VIEWPORT_HEIGHT'' \<mapsto> ''720'',
           ''TIMEOUT'' \<mapsto> ''500'']"

definition env_small :: env where
  "env_small = [''VIEWPORT_WIDTH'' \<mapsto> ''200'']"

section \<open>Report summary (utils/cucumber-report.ts, lines 107-203)\<close>

text \<open>
  The report is the JSON written by the BDD runner: an array of features, each with an
  optional array \<open>elements\<close>; an element has a \<open>type\<close> and an optional array \<open>steps\<close>;
  a step has an optional \<open>result\<close> with a \<open>status\<close> and an optional \<open>duration\<close> in
  nanoseconds. A field that the code tests before use is an option; a status or type that
  is missing is \<open>None\<close>.
\<close>

record step_result =
  sr_status :: "string option"
  sr_duration :: "nat option"

record step =
  st_result :: "step_result option"

record element =
  el_type :: "string option"
  el_steps :: "step list option"

record feature =
  ft_elements :: "element list option"

record summary =
  features_total :: nat
  features_passed :: nat
  features_failed :: nat
  scenarios_total :: nat
  scenarios_passed :: nat
  scenarios_failed :: nat
  scenarios_skipped :: nat
  steps_total :: nat
  steps_passed :: nat
  steps_failed :: nat
  steps_skipped :: nat
  duration_total :: nat
  duration_formatted :: string
  successRate :: string

text \<open>
  The state of the three nested \<^verbatim>\<open>forEach\<close> loops: the summary object and the local
  variables of the enclosing callbacks.
\<close>

record walk = summary +
  totalDuration :: nat
  featureHasFailed :: bool
  scenarioHasFailed :: bool
  scenarioHasSkipped :: bool

text \<open>
  \<^verbatim>\<open>formatDuration\<close>: the quotient by \<open>10^6\<close> is only used under \<^verbatim>\<open>Math.floor\<close>, so
  integer division gives the same numerals.
\<close>

definition formatDuration :: "nat \<Rightarrow> string" where
  "formatDuration nanoseconds =
     (let seconds = nanoseconds div 1000000 div 1000;
          minutes = seconds div 60;
          hours = minutes div 60
      in if hours > 0 then
           decimal hours @ ''h '' @ decimal (minutes mod 60) @ ''m '' @ decimal (seconds mod 60) @ ''s''
         else if minutes > 0 then
           decimal minutes @ ''m '' @ decimal (seconds mod 60) @ ''s''
         else if seconds > 0 then
           decimal seconds @ ''s '' @ decimal (nanoseconds div 1000000 mod 1000) @ ''ms''
         else decimal (nanoseconds div 1000000) @ ''ms'')"

text \<open>
  \<^verbatim>\<open>x.toFixed(2)\<close> for \<open>x \<ge> 0\<close>: the integer \<open>n\<close> with \<open>n / 100\<close> nearest to \<open>x\<close>, the
  larger one on a tie, written with two decimals. The quotient and the product of the
  program are doubles; they are taken here as exact rationals.
\<close>

definition toFixed2 :: "rat \<Rightarrow> string" where
  "toFixed2 x =
     (let n = nat \<lfloor>x * 100 + 1 / 2\<rfloor>
      in decimal (n div 100) @ ''.'' @ [digit_char (n mod 100 div 10), digit_char (n mod 10)])"

definition initial_walk :: walk where
  "initial_walk =
     \<lparr>features_total = 0, features_passed = 0, features_failed = 0,
      scenarios_total = 0, scenarios_passed = 0, scenarios_failed = 0, scenarios_skipped = 0,
      steps_total = 0, steps_passed = 0, steps_failed = 0, steps_skipped = 0,
      duration_total = 0, duration_formatted = [], successRate = ''0.00'',
      totalDuration = 0, featureHasFailed = False, scenarioHasFailed = False,
      scenarioHasSkipped = False\<rparr>"

definition step_body :: "step \<Rightarrow> walk \<Rightarrow> walk" where
  "step_body step w =
     (let w1 = w\<lparr>steps_total := steps_total w + 1\<rparr> in
      case st_result step of
        None \<Rightarrow> w1
      | Some result \<Rightarrow>
          let status = sr_status result;
              w2 = (case sr_duration result of
                      None \<Rightarrow> w1
                    | Some d \<Rightarrow>
                        if d \<noteq> 0 then w1\<lparr>totalDuration := totalDuration w1 + d\<rparr> else w1)
          in if status = Some ''passed'' then w2\<lparr>steps_passed := steps_passed w2 + 1\<rparr>
             else if status = Some ''failed'' then
               w2\<lparr>steps_failed := steps_failed w2 + 1,
                  scenarioHasFailed := True, featureHasFailed := True\<rparr>
             else if status = Some ''skipped'' then
               w2\<lparr>steps_skipped := steps_skipped w2 + 1, scenarioHasSkipped := True\<rparr>
             else w2)"

definition scenario_body :: "element \<Rightarrow> walk \<Rightarrow> walk" where
  "scenario_body scenario w =
     (if el_type scenario = Some ''scenario'' then
        let w1 = w\<lparr>scenarios_total := scenarios_total w + 1,
                   scenarioHasFailed := False, scenarioHasSkipped := False\<rparr>;
            w2 = (case el_steps scenario of
                    None \<Rightarrow> w1
                  | Some steps \<Rightarrow> fold step_body steps w1)
        in if scenarioHasFailed w2 then w2\<lparr>scenarios_failed := scenarios_failed w2 + 1\<rparr>
           else if scenarioHasSkipped w2 then
             w2\<lparr>scenarios_skipped := scenarios_skipped w2 + 1\<rparr>
           else w2\<lparr>scenarios_passed := scenarios_passed w2 + 1\<rparr>
      else w)"

definition feature_body :: "feature \<Rightarrow> walk \<Rightarrow> walk" where
  "feature_body feature w =
     (let w1 = w\<lparr>features_total := features_total w + 1, featureHasFailed := False\<rparr>;
          w2 = (case ft_elements feature of
                  None \<Rightarrow> w1
                | Some elements \<Rightarrow> fold scenario_body elements w1)
      in if featureHasFailed w2 then w2\<lparr>features_failed := features_failed w2 + 1\<rparr>
         else w2\<lparr>features_passed := features_passed w2 + 1\<rparr>)"

definition calculateSummary :: "feature list \<Rightarrow> summary" where
  "calculateSummary report =
     (let w = fold feature_body report initial_walk;
          s = (summary.truncate w)
                \<lparr>duration_total := totalDuration w,
                 duration_formatted := formatDuration (totalDuration w)\<rparr>
      in if scenarios_total s > 0 then
           s\<lparr>successRate :=
               toFixed2 (of_nat (scenarios_passed s) / of_nat (scenarios_total s) * 100)\<rparr>
         else s)"

subsection \<open>The summary loop of the AfterAll hook (hooks file, lines 196-223)\<close>

record after_counts =
  totalScenarios :: nat
  passedScenarios :: nat
  failedScenarios :: nat
  skippedScenarios :: nat

text \<open>\<^verbatim>\<open>step.result?.status === s\<close>\<close>

definition result_status_is :: "string \<Rightarrow> step \<Rightarrow> bool" where
  "result_status_is s step =
     (case st_result step of None \<Rightarrow> False | Some result \<Rightarrow> sr_status result = Some s)"

text \<open>\<^verbatim>\<open>steps?.some(p)\<close> as a condition: \<^verbatim>\<open>undefined\<close> counts as false.\<close>

definition optional_some :: "('a \<Rightarrow> bool) \<Rightarrow> 'a list option \<Rightarrow> bool" where
  "optional_some p xs = (case xs of None \<Rightarrow> False | Some ys \<Rightarrow> list_ex p ys)"

definition afterAll_scenario :: "element \<Rightarrow> after_counts \<Rightarrow> after_counts" where
  "afterAll_scenario scenario c =
     (if el_type scenario = Some ''scenario'' then
        let c1 = c\<lparr>totalScenarios := totalScenarios c + 1\<rparr>;
            hasFailedStep = optional_some (result_status_is ''failed'') (el_steps scenario);
            hasSkippedStep = optional_some (result_status_is ''skipped'') (el_steps scenario)
        in if hasFailedStep then c1\<lparr>failedScenarios := failedScenarios c1 + 1\<rparr>
           else if hasSkippedStep then c1\<lparr>skippedScenarios := skippedScenarios c1 + 1\<rparr>
           else c1\<lparr>passedScenarios := passedScenarios c1 + 1\<rparr>
      else c)"

definition afterAll_summary :: "feature list \<Rightarrow> after_counts" where
  "afterAll_summary report =
     fold (\<lambda>feature c.
            case ft_elements feature of
              None \<Rightarrow> c
            | Some elements \<Rightarrow> fold afterAll_scenario elements c)
       report
       \<lparr>totalScenarios = 0, passedScenarios = 0, failedScenarios = 0, skippedScenarios = 0\<rparr>"

subsection \<open>The classification in the words of the specification\<close>

datatype verdict = Passed | Failed | Skipped

definition steps_of :: "element \<Rightarrow> step list" where
  "steps_of el = (case el_steps el of None \<Rightarrow> [] | Some steps \<Rightarrow> steps)"

definition elements_of :: "feature \<Rightarrow> element list" where
  "elements_of f = (case ft_elements f of None \<Rightarrow> [] | Some els \<Rightarrow> els)"

definition is_scenario :: "element \<Rightarrow> bool" where
  "is_scenario el = (el_type el = Some ''scenario'')"

definition spec_verdict :: "element \<Rightarrow> verdict" where
  "spec_verdict el =
     (if list_ex (result_status_is ''failed'') (steps_of el) then Failed
      else if list_ex (result_status_is ''skipped'') (steps_of el) then Skipped
      else Passed)"

definition spec_scenarios :: "feature list \<Rightarrow> element list" where
  "spec_scenarios report = concat (map (\<lambda>f. filter is_scenario (elements_of f)) report)"

definition spec_count :: "verdict \<Rightarrow> feature list \<Rightarrow> nat" where
  "spec_count v report = length (filter (\<lambda>el. spec_verdict el = v) (spec_scenarios report))"

definition spec_feature_failed :: "feature \<Rightarrow> bool" where
  "spec_feature_failed f =
     list_ex (\<lambda>el. is_scenario el \<and> spec_verdict el = Failed) (elements_of f)"





definition report_pending :: "feature list" where
  "report_pending =
     [\<lparr>ft_elements = Some
         [\<lparr>el_type = Some ''scenario'',
           el_steps = Some [\<lparr>st_result = None\<rparr>,
                            \<lparr>st_result = Some \<lparr>sr_status = Some ''pending'',
                                                sr_duration = None\<rparr>\<rparr>]\<rparr>]\<rparr>]"

text \<open>The step counters never exceed the number of steps visited.\<close>

definition steps_bounded :: "walk \<Rightarrow> bool" where
  "steps_bounded w = (steps_passed w + steps_failed w + steps_skipped w \<le> steps_total w)"

section \<open>Browser lifecycle (utils/browserManager.ts)\<close>

text \<open>
  The calls into the automation library are outside the program; each of them may fail.
  A record of \<open>calls\<close> gives the outcome of every library call made while one hook or
  one method runs: \<open>None\<close> when the call succeeds, the error it throws otherwise. A call
  that fails changes nothing.
\<close>

record calls =
  c_launch :: "js_error option"
  c_newContext :: "js_error option"
  c_tracingStart :: "js_error option"
  c_newPage :: "js_error option"
  c_tracingStop :: "js_error option"
  c_pageClose :: "js_error option"
  c_contextClose :: "js_error option"
  c_browserClose :: "js_error option"
  c_goto :: "js_error option"
  c_screenshot :: "js_error option"

text \<open>
  The state: the four fields of the \<^verbatim>\<open>BrowserManager\<close> singleton, the module variable
  \<^verbatim>\<open>currentFeatureUri\<close> of the hooks file, the console, and the browsers of the outside
  world. \<open>live\<close> lists the browsers launched and not closed, \<open>fresh\<close> is the next unused
  handle, and \<open>peak\<close> records the largest number of browsers that were live at once.
\<close>

record world =
  m_browser :: "nat option"
  m_context :: "nat option"
  m_page :: "nat option"
  m_isInitialized :: bool
  currentFeatureUri :: "string option"
  live :: "nat list"
  fresh :: nat
  peak :: nat
  console :: "string list"

text \<open>A method returns the error it throws, if any, and the state it leaves.\<close>

type_synonym outcome = "js_error option \<times> world"

definition and_then :: "outcome \<Rightarrow> (world \<Rightarrow> outcome) \<Rightarrow> outcome" where
  "and_then r f = (case r of (Some err, w) \<Rightarrow> (Some err, w) | (None, w) \<Rightarrow> f w)"

definition external :: "js_error option \<Rightarrow> (world \<Rightarrow> world) \<Rightarrow> world \<Rightarrow> outcome" where
  "external result effect w =
     (case result of Some err \<Rightarrow> (Some err, w) | None \<Rightarrow> (None, effect w))"

definition console_log :: "string \<Rightarrow> world \<Rightarrow> world" where
  "console_log msg w = w\<lparr>console := console w @ [msg]\<rparr>"

definition launch_effect :: "world \<Rightarrow> world" where
  "launch_effect w =
     w\<lparr>m_browser := Some (fresh w), live := live w @ [fresh w], fresh := fresh w + 1,
       peak := max (peak w) (length (live w) + 1)\<rparr>"

definition createContext :: "browser_config \<Rightarrow> calls \<Rightarrow> world \<Rightarrow> outcome" where
  "createContext cfg c w =
     (if m_browser w = None then (Some (Error ''Browser not initialized''), w)
      else
        and_then
          (external (c_newContext c)
             (\<lambda>w. w\<lparr>m_context := Some (fresh w), fresh := fresh w + 1\<rparr>) w)
          (\<lambda>w. if bc_recordTrace cfg then external (c_tracingStart c) (\<lambda>w. w) w
               else (None, w)))"

definition createPage :: "browser_config \<Rightarrow> calls \<Rightarrow> world \<Rightarrow> outcome" where
  "createPage cfg c w =
     (if m_context w = None then (Some (Error ''Browser context not initialized''), w)
      else external (c_newPage c) (\<lambda>w. w\<lparr>m_page := Some (fresh w), fresh := fresh w + 1\<rparr>) w)"

text \<open>
  \<^verbatim>\<open>initializeBrowser\<close> (lines 23-52): nothing when already initialized; otherwise
  launch, create the context, create the page and set the flag. An error of any of the
  three is logged and thrown again.
\<close>

definition initializeBrowser :: "browser_config \<Rightarrow> calls \<Rightarrow> world \<Rightarrow> outcome" where
  "initializeBrowser cfg c w =
     (if m_isInitialized w then (None, w)
      else
        case and_then
               (and_then
                  (and_then
                     (external (c_launch c) launch_effect
                        (console_log (''Launching '' @ bc_browser cfg @ '' browser'') w))
                     (createContext cfg c))
                  (createPage cfg c))
               (\<lambda>w. (None, console_log ''Browser initialized'' (w\<lparr>m_isInitialized := True\<rparr>)))
        of (Some err, w') \<Rightarrow>
             (Some err, console_log (''Failed to initialize browser: '' @ error_message err) w')
         | (None, w') \<Rightarrow> (None, w'))"

text \<open>
  \<^verbatim>\<open>cleanup\<close> (lines 201-230): the body of the \<^verbatim>\<open>try\<close>, and the method, whose
  \<^verbatim>\<open>catch\<close> logs the error and returns.
\<close>

definition cleanup_body :: "browser_config \<Rightarrow> calls \<Rightarrow> world \<Rightarrow> outcome" where
  "cleanup_body cfg c w =
     and_then
       (if bc_recordTrace cfg \<and> m_context w \<noteq> None
        then external (c_tracingStop c) (\<lambda>w. w) w else (None, w))
       (\<lambda>w. and_then
          (if m_page w \<noteq> None
           then external (c_pageClose c) (\<lambda>w. w\<lparr>m_page := None\<rparr>) w else (None, w))
          (\<lambda>w. and_then
             (if m_context w \<noteq> None
              then external (c_contextClose c) (\<lambda>w. w\<lparr>m_context := None\<rparr>) w
              else (None, w))
             (\<lambda>w. and_then
                (case m_browser w of
                   None \<Rightarrow> (None, w)
                 | Some b \<Rightarrow>
                     external (c_browserClose c)
                       (\<lambda>w. w\<lparr>live := removeAll b (live w), m_browser := None\<rparr>) w)
                (\<lambda>w. (None, console_log ''Browser cleanup completed''
                               (w\<lparr>m_isInitialized := False\<rparr>))))))"

definition cleanup :: "browser_config \<Rightarrow> calls \<Rightarrow> world \<Rightarrow> outcome" where
  "cleanup cfg c w =
     (case cleanup_body cfg c w of
        (Some err, w') \<Rightarrow>
          (None, console_log (''Error during browser cleanup: '' @ error_message err) w')
      | (None, w') \<Rightarrow> (None, w'))"

definition isReady :: "world \<Rightarrow> bool" where
  "isReady w = (m_isInitialized w \<and> m_page w \<noteq> None)"

text \<open>
  \<^verbatim>\<open>navigateToPage\<close> (lines 130-151).
\<close>

definition navigateToPage :: "env \<Rightarrow> browser_config \<Rightarrow> string \<Rightarrow> calls \<Rightarrow> world \<Rightarrow> outcome" where
  "navigateToPage e cfg url c w =
     (if m_page w = None then
        (Some (Error ''Page not initialized. Call initializeBrowser() first.''), w)
      else
        let testConfig = getTestConfig e;
            fullUrl = (if startsWith url ''http'' then url else tc_baseURL testConfig @ url)
        in case external (c_goto c) (\<lambda>w. w) w of
             (Some err, w') \<Rightarrow>
               (Some err,
                console_log (''Navigation failed to '' @ fullUrl @ '': '' @ error_message err) w')
           | (None, w') \<Rightarrow>
               (None, if isDebugMode e then console_log (''Navigated to: '' @ fullUrl) w' else w'))"

definition full_url :: "env \<Rightarrow> string \<Rightarrow> string" where
  "full_url e url = (if startsWith url ''http'' then url else tc_baseURL (getTestConfig e) @ url)"

text \<open>
  \<^verbatim>\<open>takeScreenshot\<close> (lines 153-178). \<open>isoString\<close> is \<^verbatim>\<open>new Date().toISOString()\<close>. The
  result is the error thrown or the value returned, a path or \<^verbatim>\<open>null\<close>.
\<close>

definition screenshot_path :: "string \<Rightarrow> string \<Rightarrow> string" where
  "screenshot_path name isoString =
     ''reports/screenshots/'' @ name @ ''-'' @
     map (\<lambda>ch. if ch = CHR '':'' \<or> ch = CHR ''.'' then CHR ''-'' else ch) isoString @ ''.png''"

definition takeScreenshot_body ::
  "env \<Rightarrow> string \<Rightarrow> bool \<Rightarrow> string \<Rightarrow> calls \<Rightarrow> world \<Rightarrow> (js_error + string) \<times> world" where
  "takeScreenshot_body e name fullPage isoString c w =
     (let path = screenshot_path name isoString in
      case external (c_screenshot c) (\<lambda>w. w) w of
        (Some err, w') \<Rightarrow> (Inl err, w')
      | (None, w') \<Rightarrow>
          (Inr path, if isDebugMode e then console_log (''Screenshot saved: '' @ path) w' else w'))"

definition takeScreenshot ::
  "env \<Rightarrow> string \<Rightarrow> bool \<Rightarrow> string \<Rightarrow> calls \<Rightarrow> world
     \<Rightarrow> (js_error + string option) \<times> world" where
  "takeScreenshot e name fullPage isoString c w =
     (if m_page w = None then
        (Inr None, console_log ''Cannot take screenshot: Page not initialized'' w)
      else
        case takeScreenshot_body e name fullPage isoString c w of
          (Inl err, w') \<Rightarrow>
            (Inr None, console_log (''Failed to take screenshot: '' @ error_message err) w')
        | (Inr path, w') \<Rightarrow> (Inr (Some path), w'))"

section \<open>The feature hook (hooks file, lines 44-63)\<close>

text \<open>
  \<^verbatim>\<open>
  let currentFeatureUri: string | null = null;
  Before(async function (scenario) {
    const featureUri = scenario.gherkinDocument?.uri || scenario.pickle.uri;
    if (currentFeatureUri !== featureUri) {
      if (currentFeatureUri && browserManager.isReady()) {
        await browserManager.cleanup();
      }
      await browserManager.initializeBrowser();
      currentFeatureUri = featureUri;
    }
  });
  \<close>
\<close>

record scenario =
  sc_gherkin_uri :: "string option"
  sc_pickle_uri :: string

definition feature_uri :: "scenario \<Rightarrow> string" where
  "feature_uri sc =
     (case sc_gherkin_uri sc of
        None \<Rightarrow> sc_pickle_uri sc
      | Some u \<Rightarrow> if u = [] then sc_pickle_uri sc else u)"

definition beforeFeature :: "browser_config \<Rightarrow> scenario \<Rightarrow> calls \<Rightarrow> world \<Rightarrow> outcome" where
  "beforeFeature cfg sc c w =
     (let featureUri = feature_uri sc in
      if currentFeatureUri w \<noteq> Some featureUri then
        and_then
          (if currentFeatureUri w \<noteq> None \<and> currentFeatureUri w \<noteq> Some [] \<and> isReady w
           then cleanup cfg c (console_log '' Cleaning up browser from previous feature...'' w)
           else (None, w))
          (\<lambda>w. and_then
             (initializeBrowser cfg c
                (console_log ('' Initializing browser for feature: '' @ featureUri) w))
             (\<lambda>w. (None, (console_log '' Browser initialized and ready'' w)
                            \<lparr>currentFeatureUri := Some featureUri\<rparr>)))
      else (None, w))"


definition initial_world :: world where
  "initial_world =
     \<lparr>m_browser = None, m_context = None, m_page = None, m_isInitialized = False,
      currentFeatureUri = None, live = [], fresh = 0, peak = 0, console = []\<rparr>"


text \<open>
  The invariant of the lifecycle: the only live browser is the one the manager holds, a
  manager that is not initialized holds none, and no handle in use is handed out again.
\<close>

definition one_browser :: "world \<Rightarrow> bool" where
  "one_browser w =
     ((\<not> m_isInitialized w \<longrightarrow> m_browser w = None) \<and>
      live w = (case m_browser w of None \<Rightarrow> [] | Some b \<Rightarrow> [b]) \<and>
      (case m_browser w of None \<Rightarrow> True | Some b \<Rightarrow> b < fresh w) \<and>
      peak w \<le> 1)"

text \<open>Outcomes, scenarios and a configuration for the examples.\<close>

definition all_ok :: calls where
  "all_ok =
     \<lparr>c_launch = None, c_newContext = None, c_tracingStart = None, c_newPage = None,
      c_tracingStop = None, c_pageClose = None, c_contextClose = None, c_browserClose = None,
      c_goto = None, c_screenshot = None\<rparr>"

definition cfg0 :: browser_config where
  "cfg0 = getBrowserConfig Map.empty"

definition scenario_of :: "string \<Rightarrow> scenario" where
  "scenario_of uri = \<lparr>sc_gherkin_uri = Some uri, sc_pickle_uri = uri\<rparr>"

definition ready_world :: world where
  "ready_world = snd (beforeFeature cfg0 (scenario_of ''features/a.feature'') all_ok initial_world)"


definition goto_fails :: calls where
  "goto_fails = all_ok\<lparr>c_goto := Some (Error ''net::ERR_CONNECTION_REFUSED'')\<rparr>"

definition close_fails :: calls where
  "close_fails = all_ok\<lparr>c_pageClose := Some (Error ''Target closed'')\<rparr>"

definition screenshot_fails :: calls where
  "screenshot_fails = all_ok\<lparr>c_screenshot := Some (Error ''Target closed'')\<rparr>"



section \<open>Properties of deepMerge\<close>

lemma getp_update: "getp (AList.update k v ps) k' = (if k' = k then v else getp ps k')"
  by (simp add: getp_def update_conv')

lemma getp_absent: "k \<notin> set (map fst ps) \<Longrightarrow> getp ps k = JUndefined"
proof -
  assume "k \<notin> set (map fst ps)"
  then have "map_of ps k = None" by (simp add: map_of_eq_None_iff)
  then show ?thesis by (simp add: getp_def)
qed

lemma getp_fold_step:
  "getp (fold (\<lambda>key result.
        if getp source key \<noteq> JUndefined then
          (if typeof (getp source key) = ''object'' \<and> getp source key \<noteq> JNull \<and>
              typeof (getp target key) = ''object'' \<and> getp target key \<noteq> JNull
           then AList.update key
                  (JObj PlainObject
                     (deepMerge (own_props (getp target key)) (own_props (getp source key))))
                  result
           else AList.update key (getp source key) result)
        else result) ks r) k =
   (if k \<in> set ks \<and> getp source k \<noteq> JUndefined then merged_value target source k
    else getp r k)"
  by (induction ks arbitrary: r) (auto simp: getp_update merged_value_def)

lemma getp_deepMerge:
  "getp (deepMerge target source) k =
     (if getp source k \<noteq> JUndefined then merged_value target source k else getp target k)"
  using getp_absent[of k source]
  by (subst deepMerge.simps) (simp only: getp_fold_step, auto)

lemma deepMerge_empty: "deepMerge target [] = target"
  by (subst deepMerge.simps) simp

lemma getp_Cons: "getp ((k, v) # ps) k' = (if k' = k then v else getp ps k')"
  by (simp add: getp_def)

lemma getp_Nil: "getp [] k = JUndefined"
  by (simp add: getp_def)



section \<open>Properties of the customer generator\<close>

lemma is_digit_digit_char: "d < 10 \<Longrightarrow> is_digit (digit_char d)"
  unfolding is_digit_def digit_char_def by (rule nth_mem) simp

lemma decimal_digits: "list_all is_digit (decimal n)"
proof (induction n rule: decimal.induct)
  case (1 n)
  show ?case
  proof (cases "n < 10")
    case True
    then show ?thesis by (subst decimal.simps) (simp add: is_digit_digit_char)
  next
    case False
    with 1 show ?thesis by (subst decimal.simps) (simp add: is_digit_digit_char)
  qed
qed

lemma decimal_length1: "n < 10 \<Longrightarrow> length (decimal n) = 1"
  by (subst decimal.simps) simp

lemma decimal_length_Suc: "10 \<le> n \<Longrightarrow> length (decimal n) = Suc (length (decimal (n div 10)))"
  by (subst decimal.simps) simp

lemma decimal_length2: "10 \<le> n \<Longrightarrow> n \<le> 99 \<Longrightarrow> length (decimal n) = 2"
  using decimal_length1[of "n div 10"] by (simp add: decimal_length_Suc)

lemma decimal_length3: "100 \<le> n \<Longrightarrow> n \<le> 999 \<Longrightarrow> length (decimal n) = 3"
  using decimal_length2[of "n div 10"] by (simp add: decimal_length_Suc)

lemma decimal_length4: "1000 \<le> n \<Longrightarrow> n \<le> 9999 \<Longrightarrow> length (decimal n) = 4"
  using decimal_length3[of "n div 10"] by (simp add: decimal_length_Suc)

lemma generateSSN_shaped:
  assumes "faker_number_int 100 999 a" "faker_number_int 10 99 b" "faker_number_int 1000 9999 c"
  shows "ssn_shaped (generateSSN a b c)"
proof -
  from assms have la: "length (decimal (nat a)) = 3" and lb: "length (decimal (nat b)) = 2"
    and lc: "length (decimal (nat c)) = 4"
    by (auto simp: faker_number_int_def intro!: decimal_length2 decimal_length3 decimal_length4)
  from assms have pos: "\<not> a < 0" "\<not> b < 0" "\<not> c < 0"
    by (auto simp: faker_number_int_def)
  show ?thesis
    using la lb lc pos decimal_digits[of "nat a"] decimal_digits[of "nat b"]
      decimal_digits[of "nat c"]
    by (simp add: ssn_shaped_def generateSSN_def number_to_string_def nth_append)
qed

lemma ssn_no_overrides:
  "ssn_field (generateInsuranceCustomer gy now d []) =
     JStr (generateSSN (f_ssn_area d) (f_ssn_group d) (f_ssn_serial d))"
  by (simp add: ssn_field_def generateInsuranceCustomer_def Let_def deepMerge_empty getp_Cons
      getp_update)

lemma ssn_overridden:
  "ssn_field (generateInsuranceCustomer gy now d ssn_override) = JStr ''n/a''"
  by (simp add: ssn_field_def generateInsuranceCustomer_def Let_def getp_deepMerge
      merged_value_def getp_Cons getp_update ssn_override_def getp_Nil)

lemma address_merge:
  assumes "typeof (getp overrides ''address'') = ''object''" "getp overrides ''address'' \<noteq> JNull"
  shows "address_field (generateInsuranceCustomer gy now d overrides) key =
     (if getp (own_props (getp overrides ''address'')) key \<noteq> JUndefined
      then merged_value
        [(''street'', JStr (f_street d)), (''city'', JStr (f_city d)),
         (''state'', JStr (f_state d)), (''zipCode'', JStr (f_zipCode d)),
         (''country'', JStr ''USA''), (''fullAddress'', JStr (generated_fullAddress d))]
        (own_props (getp overrides ''address'')) key
      else getp
        [(''street'', JStr (f_street d)), (''city'', JStr (f_city d)),
         (''state'', JStr (f_state d)), (''zipCode'', JStr (f_zipCode d)),
         (''country'', JStr ''USA''), (''fullAddress'', JStr (generated_fullAddress d))] key)"
proof -
  from assms have "getp overrides ''address'' \<noteq> JUndefined"
    by (cases "getp overrides ''address''") auto
  with assms show ?thesis
    by (simp add: address_field_def generateInsuranceCustomer_def Let_def getp_deepMerge
        merged_value_def getp_Cons getp_update generated_fullAddress_def)
qed

lemma address_untouched:
  assumes "getp overrides ''address'' = JUndefined"
  shows "address_field (generateInsuranceCustomer gy now d overrides) key =
     getp
        [(''street'', JStr (f_street d)), (''city'', JStr (f_city d)),
         (''state'', JStr (f_state d)), (''zipCode'', JStr (f_zipCode d)),
         (''country'', JStr ''USA''), (''fullAddress'', JStr (generated_fullAddress d))] key"
  using assms
  by (simp add: address_field_def generateInsuranceCustomer_def Let_def getp_deepMerge
        getp_Cons getp_update generated_fullAddress_def)

text \<open>
  Claim C7 says that some call of \<^verbatim>\<open>generateInsuranceCustomer\<close> with no overrides returns
  an \<open>ssn\<close> that is not SSN-shaped. The generator builds the field from three integers
  drawn between 100 and 999, 10 and 99, and 1000 and 9999, so there is no such call.
\<close>

theorem ssn_unshaped_counterexample:
  "\<not> (\<exists>gy now d.
        faker_number_int 100 999 (f_ssn_area d) \<and> faker_number_int 10 99 (f_ssn_group d) \<and>
        faker_number_int 1000 9999 (f_ssn_serial d) \<and>
        \<not> ssn_shaped_value (ssn_field (generateInsuranceCustomer gy now d [])))"
  by (auto simp: ssn_no_overrides generateSSN_shaped)

text \<open>
  Claim C7, amended. With no overrides, and the three integers drawn within their bounds,
  the \<open>ssn\<close> field of the generated customer is an SSN-shaped string; the generator does
  not check an overridden \<open>ssn\<close>, which is returned as given, SSN-shaped or not.
\<close>

theorem ssn_shaped_without_overrides:
  assumes "faker_number_int 100 999 (f_ssn_area d)"
    and "faker_number_int 10 99 (f_ssn_group d)"
    and "faker_number_int 1000 9999 (f_ssn_serial d)"
  shows "ssn_shaped_value (ssn_field (generateInsuranceCustomer gy now d []))
       \<and> \<not> ssn_shaped_value (ssn_field (generateInsuranceCustomer gy now d ssn_override))"
  using generateSSN_shaped[OF assms]
  by (simp add: ssn_no_overrides ssn_overridden ssn_shaped_def)

theorem ssn_shaped_without_overrides_witness:
  "faker_number_int 100 999 (f_ssn_area draws0) \<and> faker_number_int 10 99 (f_ssn_group draws0)
   \<and> faker_number_int 1000 9999 (f_ssn_serial draws0)
   \<and> ssn_shaped_value (ssn_field (generateInsuranceCustomer year0 0 draws0 []))
   \<and> \<not> ssn_shaped_value (ssn_field (generateInsuranceCustomer year0 0 draws0 ssn_override))"
proof -
  have h: "faker_number_int 100 999 (f_ssn_area draws0)"
    "faker_number_int 10 99 (f_ssn_group draws0)"
    "faker_number_int 1000 9999 (f_ssn_serial draws0)"
    by (simp_all add: faker_number_int_def draws0_def)
  show ?thesis
    using h ssn_shaped_without_overrides[OF h, of year0 0] by simp
qed

text \<open>
  Claim C8 says that for every overrides argument the returned \<open>fullAddress\<close> is the
  concatenation of the generated address values. An override of \<open>address.fullAddress\<close>
  itself is merged like any other field and replaces it.
\<close>

theorem fullAddress_override_counterexample:
  "address_field (generateInsuranceCustomer year0 0 draws0 fullAddress_override) ''fullAddress''
     = JStr ''custom''
   \<and> JStr ''custom'' \<noteq>
       JStr (f_street draws0 @ '', '' @ f_city draws0 @ '', '' @ f_state draws0 @ '' '' @
             f_zipCode draws0)"
  by (simp add: address_merge fullAddress_override_def getp_Cons merged_value_def draws0_def)

text \<open>
  Claim C8, amended. For every overrides argument whose \<open>address\<close> is absent or an object
  that does not define \<open>fullAddress\<close>, the returned \<open>fullAddress\<close> is the concatenation
  "street, city, state zipCode" of the generated values, computed before the merge. A
  string that the overrides give for an address field is the returned value of that field,
  so after an override of the city by another city the returned \<open>fullAddress\<close> differs
  from the concatenation of the returned fields.
\<close>

theorem fullAddress_from_generated_fields:
  assumes "getp overrides ''address'' = JUndefined \<or>
           (typeof (getp overrides ''address'') = ''object'' \<and> getp overrides ''address'' \<noteq> JNull)"
    and "getp (own_props (getp overrides ''address'')) ''fullAddress'' = JUndefined"
  shows "address_field (generateInsuranceCustomer gy now d overrides) ''fullAddress'' =
           JStr (generated_fullAddress d)
       \<and> (getp (own_props (getp overrides ''address'')) key = JStr x \<longrightarrow>
            address_field (generateInsuranceCustomer gy now d overrides) key = JStr x)
       \<and> (x \<noteq> f_city d \<longrightarrow>
            generated_fullAddress d \<noteq>
              f_street d @ '', '' @ x @ '', '' @ f_state d @ '' '' @ f_zipCode d)"
proof (intro conjI impI)
  show "address_field (generateInsuranceCustomer gy now d overrides) ''fullAddress'' =
           JStr (generated_fullAddress d)"
    using assms by (auto simp: address_merge address_untouched getp_Cons)
next
  assume x: "getp (own_props (getp overrides ''address'')) key = JStr x"
  then have "getp overrides ''address'' \<noteq> JUndefined"
    by (auto simp: getp_Nil)
  with assms(1) have "typeof (getp overrides ''address'') = ''object''"
    "getp overrides ''address'' \<noteq> JNull"
    by auto
  then show "address_field (generateInsuranceCustomer gy now d overrides) key = JStr x"
    using x by (simp add: address_merge merged_value_def)
next
  assume "x \<noteq> f_city d"
  then show "generated_fullAddress d \<noteq>
      f_street d @ '', '' @ x @ '', '' @ f_state d @ '' '' @ f_zipCode d"
    by (simp add: generated_fullAddress_def)
qed

theorem fullAddress_from_generated_fields_witness:
  "address_field (generateInsuranceCustomer year0 0 draws0 city_override) ''fullAddress'' =
     JStr ''1 Main St, Springfield, IL 62701''
   \<and> address_field (generateInsuranceCustomer year0 0 draws0 city_override) ''city'' =
       JStr ''Chicago''
   \<and> generated_fullAddress draws0 \<noteq> ''1 Main St, Chicago, IL 62701''"
  using fullAddress_from_generated_fields[where overrides = city_override and key = "''city''"
      and x = "''Chicago''" and gy = year0 and now = 0 and d = draws0]
  by (simp add: city_override_def getp_def draws0_def generated_fullAddress_def)

section \<open>Properties of validateConfig\<close>

lemma getBrowserConfig_timeout:
  "getBrowserConfig (e(''TIMEOUT'' := t)) =
     (getBrowserConfig e)\<lparr>bc_timeout := parseInt (or_default t ''60000'')\<rparr>"
  by (simp add: getBrowserConfig_def)

lemma getTestConfig_timeout:
  "getTestConfig (e(''TIMEOUT'' := t)) =
     (getTestConfig e)\<lparr>tc_timeout := parseInt (or_default t ''60000'')\<rparr>"
  by (simp add: getTestConfig_def)

lemma validateConfig_timeout:
  "snd (validateConfig (e(''TIMEOUT'' := t))) = snd (validateConfig e)"
  by (simp add: validateConfig_def Let_def getBrowserConfig_timeout getTestConfig_timeout)

lemma parseInt_1280: "parseInt ''1280'' = Num 1280"
  by code_simp

lemma parseInt_720: "parseInt ''720'' = Num 720"
  by code_simp

lemma parseInt_500: "parseInt ''500'' = Num 500"
  by code_simp

lemma parseInt_200: "parseInt ''200'' = Num 200"
  by code_simp

lemma parseInt_1080: "parseInt ''1080'' = Num 1080"
  by code_simp

lemmas parseInt_examples = parseInt_1280 parseInt_720 parseInt_500 parseInt_200 parseInt_1080

text \<open>
  Claim C2. For every environment, \<open>validateConfig\<close> throws exactly when the resolved
  browser is not one of chromium, firefox, webkit and chrome, or the resolved base URL
  does not start with \<open>http\<close>, or the resolved viewport width is below 320 or the height
  below 240; otherwise it returns. The value of \<open>TIMEOUT\<close> never changes whether it
  throws: a timeout below 1000 adds a warning to a run that returns.
\<close>

theorem validateConfig_throws:
  "((\<exists>err. snd (validateConfig e) = Inl err) \<longleftrightarrow>
     (bc_browser (getBrowserConfig e) \<notin> set [''chromium'', ''firefox'', ''webkit'', ''chrome'']
      \<or> \<not> startsWith (tc_baseURL (getTestConfig e)) ''http''
      \<or> js_lt (bc_viewport_width (getBrowserConfig e)) (Num 320)
      \<or> js_lt (bc_viewport_height (getBrowserConfig e)) (Num 240)))
   \<and> ((\<nexists>err. snd (validateConfig e) = Inl err) \<longrightarrow> snd (validateConfig e) = Inr ())
   \<and> snd (validateConfig (e(''TIMEOUT'' := t))) = snd (validateConfig e)
   \<and> (snd (validateConfig e) = Inr () \<and> js_lt (bc_timeout (getBrowserConfig e)) (Num 1000) \<longrightarrow>
        fst (validateConfig e) =
          [''Warning: Timeout is less than 1 second, this might cause issues''])"
proof (intro conjI)
  show "snd (validateConfig (e(''TIMEOUT'' := t))) = snd (validateConfig e)"
    by (rule validateConfig_timeout)
qed (auto simp: validateConfig_def Let_def validBrowsers_def)

theorem validateConfig_throws_witness:
  "snd (validateConfig env0) = Inr ()
   \<and> js_lt (bc_timeout (getBrowserConfig env0)) (Num 1000)
   \<and> fst (validateConfig env0) =
       [''Warning: Timeout is less than 1 second, this might cause issues'']
   \<and> bc_browser (getBrowserConfig env0) = ''firefox''
   \<and> startsWith (tc_baseURL (getTestConfig env0)) ''http''
   \<and> \<not> js_lt (bc_viewport_width (getBrowserConfig env0)) (Num 320)
   \<and> \<not> js_lt (bc_viewport_height (getBrowserConfig env0)) (Num 240)
   \<and> js_lt (bc_viewport_width (getBrowserConfig env_small)) (Num 320)
   \<and> (\<exists>err. snd (validateConfig env_small) = Inl err)"
  using validateConfig_throws[of env0 None] validateConfig_throws[of env_small None]
  by (simp add: env0_def env_small_def getBrowserConfig_def getTestConfig_def or_default_def
      startsWith_def parseInt_examples)

section \<open>Properties of the report summary\<close>

lemma step_body_frame:
  "scenarios_total (step_body st w) = scenarios_total w"
  "scenarios_passed (step_body st w) = scenarios_passed w"
  "scenarios_failed (step_body st w) = scenarios_failed w"
  "scenarios_skipped (step_body st w) = scenarios_skipped w"
  "features_total (step_body st w) = features_total w"
  "features_passed (step_body st w) = features_passed w"
  "features_failed (step_body st w) = features_failed w"
  "successRate (step_body st w) = successRate w"
  by (simp_all add: step_body_def Let_def split: option.split)

lemma step_body_flags:
  "scenarioHasFailed (step_body st w) = (scenarioHasFailed w \<or> result_status_is ''failed'' st)"
  "scenarioHasSkipped (step_body st w) = (scenarioHasSkipped w \<or> result_status_is ''skipped'' st)"
  "featureHasFailed (step_body st w) = (featureHasFailed w \<or> result_status_is ''failed'' st)"
  by (simp_all add: step_body_def Let_def result_status_is_def split: option.split)

lemma steps_frame:
  "scenarios_total (fold step_body ss w) = scenarios_total w"
  "scenarios_passed (fold step_body ss w) = scenarios_passed w"
  "scenarios_failed (fold step_body ss w) = scenarios_failed w"
  "scenarios_skipped (fold step_body ss w) = scenarios_skipped w"
  "features_total (fold step_body ss w) = features_total w"
  "features_passed (fold step_body ss w) = features_passed w"
  "features_failed (fold step_body ss w) = features_failed w"
  "successRate (fold step_body ss w) = successRate w"
  by (induction ss arbitrary: w; simp add: step_body_frame)+

lemma steps_flags:
  "scenarioHasFailed (fold step_body ss w) = (scenarioHasFailed w \<or> list_ex (result_status_is ''failed'') ss)"
  "scenarioHasSkipped (fold step_body ss w) = (scenarioHasSkipped w \<or> list_ex (result_status_is ''skipped'') ss)"
  "featureHasFailed (fold step_body ss w) = (featureHasFailed w \<or> list_ex (result_status_is ''failed'') ss)"
  by (induction ss arbitrary: w; simp add: step_body_flags disj_assoc)+

lemma scenario_body_other: "\<not> is_scenario el \<Longrightarrow> scenario_body el w = w"
  by (simp add: scenario_body_def is_scenario_def)

lemma scenario_body_counts:
  "scenarios_total (scenario_body el w) = scenarios_total w + (if is_scenario el then 1 else 0)"
  "scenarios_failed (scenario_body el w) =
     scenarios_failed w + (if is_scenario el \<and> spec_verdict el = Failed then 1 else 0)"
  "scenarios_skipped (scenario_body el w) =
     scenarios_skipped w + (if is_scenario el \<and> spec_verdict el = Skipped then 1 else 0)"
  "scenarios_passed (scenario_body el w) =
     scenarios_passed w + (if is_scenario el \<and> spec_verdict el = Passed then 1 else 0)"
  "featureHasFailed (scenario_body el w) =
     (featureHasFailed w \<or> (is_scenario el \<and> spec_verdict el = Failed))"
  "features_total (scenario_body el w) = features_total w"
  "features_passed (scenario_body el w) = features_passed w"
  "features_failed (scenario_body el w) = features_failed w"
  "successRate (scenario_body el w) = successRate w"
  by (cases "el_steps el";
      simp add: scenario_body_def Let_def is_scenario_def spec_verdict_def steps_of_def
        steps_frame steps_flags)+


lemma elements_counts:
  "scenarios_total (fold scenario_body els w) = scenarios_total w + length (filter is_scenario els)"
  "scenarios_failed (fold scenario_body els w) =
     scenarios_failed w + length (filter (\<lambda>el. spec_verdict el = Failed) (filter is_scenario els))"
  "scenarios_skipped (fold scenario_body els w) =
     scenarios_skipped w + length (filter (\<lambda>el. spec_verdict el = Skipped) (filter is_scenario els))"
  "scenarios_passed (fold scenario_body els w) =
     scenarios_passed w + length (filter (\<lambda>el. spec_verdict el = Passed) (filter is_scenario els))"
  "featureHasFailed (fold scenario_body els w) =
     (featureHasFailed w \<or> list_ex (\<lambda>el. is_scenario el \<and> spec_verdict el = Failed) els)"
  "features_total (fold scenario_body els w) = features_total w"
  "features_passed (fold scenario_body els w) = features_passed w"
  "features_failed (fold scenario_body els w) = features_failed w"
  "successRate (fold scenario_body els w) = successRate w"
  by (induction els arbitrary: w; simp add: scenario_body_counts disj_assoc)+

lemma feature_body_counts:
  "scenarios_total (feature_body f w) =
     scenarios_total w + length (filter is_scenario (elements_of f))"
  "scenarios_failed (feature_body f w) =
     scenarios_failed w +
     length (filter (\<lambda>el. spec_verdict el = Failed) (filter is_scenario (elements_of f)))"
  "scenarios_skipped (feature_body f w) =
     scenarios_skipped w +
     length (filter (\<lambda>el. spec_verdict el = Skipped) (filter is_scenario (elements_of f)))"
  "scenarios_passed (feature_body f w) =
     scenarios_passed w +
     length (filter (\<lambda>el. spec_verdict el = Passed) (filter is_scenario (elements_of f)))"
  "features_total (feature_body f w) = features_total w + 1"
  "features_failed (feature_body f w) =
     features_failed w + (if spec_feature_failed f then 1 else 0)"
  "features_passed (feature_body f w) =
     features_passed w + (if spec_feature_failed f then 0 else 1)"
  "successRate (feature_body f w) = successRate w"
  by (cases "ft_elements f";
      simp add: feature_body_def Let_def elements_of_def spec_feature_failed_def elements_counts)+

lemma report_counts:
  "scenarios_total (fold feature_body report w) = scenarios_total w + length (spec_scenarios report)"
  "scenarios_failed (fold feature_body report w) = scenarios_failed w + spec_count Failed report"
  "scenarios_skipped (fold feature_body report w) = scenarios_skipped w + spec_count Skipped report"
  "scenarios_passed (fold feature_body report w) = scenarios_passed w + spec_count Passed report"
  "features_total (fold feature_body report w) = features_total w + length report"
  "features_failed (fold feature_body report w) =
     features_failed w + length (filter spec_feature_failed report)"
  "features_passed (fold feature_body report w) =
     features_passed w + length (filter (\<lambda>f. \<not> spec_feature_failed f) report)"
  "successRate (fold feature_body report w) = successRate w"
  by (induction report arbitrary: w;
      simp add: feature_body_counts spec_scenarios_def spec_count_def)+

lemma truncate_fields:
  "features_total (summary.truncate w) = features_total w"
  "features_passed (summary.truncate w) = features_passed w"
  "features_failed (summary.truncate w) = features_failed w"
  "scenarios_total (summary.truncate w) = scenarios_total w"
  "scenarios_passed (summary.truncate w) = scenarios_passed w"
  "scenarios_failed (summary.truncate w) = scenarios_failed w"
  "scenarios_skipped (summary.truncate w) = scenarios_skipped w"
  "steps_total (summary.truncate w) = steps_total w"
  "steps_passed (summary.truncate w) = steps_passed w"
  "steps_failed (summary.truncate w) = steps_failed w"
  "steps_skipped (summary.truncate w) = steps_skipped w"
  "successRate (summary.truncate w) = successRate w"
  by (simp_all add: summary.truncate_def)

lemma calculateSummary_counts:
  "scenarios_total (calculateSummary report) = length (spec_scenarios report)"
  "scenarios_failed (calculateSummary report) = spec_count Failed report"
  "scenarios_skipped (calculateSummary report) = spec_count Skipped report"
  "scenarios_passed (calculateSummary report) = spec_count Passed report"
  "features_total (calculateSummary report) = length report"
  "features_failed (calculateSummary report) = length (filter spec_feature_failed report)"
  "features_passed (calculateSummary report) =
     length (filter (\<lambda>f. \<not> spec_feature_failed f) report)"
  by (simp_all add: calculateSummary_def Let_def truncate_fields report_counts initial_walk_def)











lemma verdict_partition:
  "length xs = length (filter (\<lambda>el. spec_verdict el = Passed) xs)
             + length (filter (\<lambda>el. spec_verdict el = Failed) xs)
             + length (filter (\<lambda>el. spec_verdict el = Skipped) xs)"
proof (induction xs)
  case Nil
  show ?case by simp
next
  case (Cons x xs)
  then show ?case by (cases "spec_verdict x") simp_all
qed

lemma fold_invariant:
  assumes "\<And>x w. P w \<Longrightarrow> P (f x w)" and "P w"
  shows "P (fold f xs w)"
  using assms(2) by (induction xs arbitrary: w) (simp_all add: assms(1))

lemma step_body_bounded: "steps_bounded w \<Longrightarrow> steps_bounded (step_body st w)"
  by (simp add: steps_bounded_def step_body_def Let_def split: option.split)

lemma scenario_body_bounded: "steps_bounded w \<Longrightarrow> steps_bounded (scenario_body el w)"
proof -
  assume w: "steps_bounded w"
  have start: "steps_bounded (w\<lparr>scenarios_total := scenarios_total w + 1,
                   scenarioHasFailed := False, scenarioHasSkipped := False\<rparr>)"
    using w by (simp add: steps_bounded_def)
  have "steps_bounded (fold step_body ss (w\<lparr>scenarios_total := scenarios_total w + 1,
                   scenarioHasFailed := False, scenarioHasSkipped := False\<rparr>))" for ss
    by (rule fold_invariant[where P = steps_bounded, OF step_body_bounded start])
  then show ?thesis
    using start w
    by (cases "el_steps el") (simp_all add: scenario_body_def Let_def steps_bounded_def)
qed

lemma feature_body_bounded: "steps_bounded w \<Longrightarrow> steps_bounded (feature_body f w)"
proof -
  assume w: "steps_bounded w"
  have start: "steps_bounded (w\<lparr>features_total := features_total w + 1, featureHasFailed := False\<rparr>)"
    using w by (simp add: steps_bounded_def)
  have "steps_bounded (fold scenario_body els
          (w\<lparr>features_total := features_total w + 1, featureHasFailed := False\<rparr>))" for els
    by (rule fold_invariant[where P = steps_bounded, OF scenario_body_bounded start])
  then show ?thesis
    using start
    by (cases "ft_elements f") (simp_all add: feature_body_def Let_def steps_bounded_def)
qed

lemma calculateSummary_steps:
  "steps_passed (calculateSummary report) + steps_failed (calculateSummary report)
     + steps_skipped (calculateSummary report) \<le> steps_total (calculateSummary report)"
proof -
  have start: "steps_bounded initial_walk"
    by (simp add: steps_bounded_def initial_walk_def)
  have "steps_bounded (fold feature_body report initial_walk)"
    by (rule fold_invariant[where P = steps_bounded, OF feature_body_bounded start])
  then show ?thesis
    by (simp add: calculateSummary_def Let_def truncate_fields steps_bounded_def)
qed

lemma report_pending_walk:
  "steps_total (fold feature_body report_pending initial_walk) = 2"
  "steps_passed (fold feature_body report_pending initial_walk) = 0"
  "steps_failed (fold feature_body report_pending initial_walk) = 0"
  "steps_skipped (fold feature_body report_pending initial_walk) = 0"
  by (simp_all add: report_pending_def feature_body_def scenario_body_def step_body_def
      initial_walk_def Let_def)

lemma report_pending_steps:
  "steps_total (calculateSummary report_pending) = 2"
  "steps_passed (calculateSummary report_pending) = 0"
  "steps_failed (calculateSummary report_pending) = 0"
  "steps_skipped (calculateSummary report_pending) = 0"
  by (simp_all add: calculateSummary_def Let_def truncate_fields report_pending_walk)

text \<open>
  Claim C9. In every summary the scenario total is the sum of the passed, failed and
  skipped scenarios and the feature total is the sum of the passed and failed features;
  the step total is at least the sum of the passed, failed and skipped steps, and it is
  larger for a report with a step that has no result and a step whose status is
  \<open>pending\<close>.
\<close>

theorem calculateSummary_totals:
  "scenarios_total (calculateSummary report) =
     scenarios_passed (calculateSummary report) + scenarios_failed (calculateSummary report)
     + scenarios_skipped (calculateSummary report)
   \<and> features_total (calculateSummary report) =
       features_passed (calculateSummary report) + features_failed (calculateSummary report)
   \<and> steps_passed (calculateSummary report) + steps_failed (calculateSummary report)
       + steps_skipped (calculateSummary report) \<le> steps_total (calculateSummary report)
   \<and> steps_passed (calculateSummary report_pending) + steps_failed (calculateSummary report_pending)
       + steps_skipped (calculateSummary report_pending)
       < steps_total (calculateSummary report_pending)"
  using verdict_partition[of "spec_scenarios report"]
    sum_length_filter_compl[of spec_feature_failed report]
  by (simp add: calculateSummary_counts calculateSummary_steps report_pending_steps spec_count_def)


lemma afterAll_scenario_counts:
  "totalScenarios (afterAll_scenario el c) = totalScenarios c + (if is_scenario el then 1 else 0)"
  "failedScenarios (afterAll_scenario el c) =
     failedScenarios c + (if is_scenario el \<and> spec_verdict el = Failed then 1 else 0)"
  "skippedScenarios (afterAll_scenario el c) =
     skippedScenarios c + (if is_scenario el \<and> spec_verdict el = Skipped then 1 else 0)"
  "passedScenarios (afterAll_scenario el c) =
     passedScenarios c + (if is_scenario el \<and> spec_verdict el = Passed then 1 else 0)"
  by (cases "el_steps el";
      simp add: afterAll_scenario_def Let_def is_scenario_def spec_verdict_def steps_of_def
        optional_some_def)+

lemma afterAll_elements_counts:
  "totalScenarios (fold afterAll_scenario els c) = totalScenarios c + length (filter is_scenario els)"
  "failedScenarios (fold afterAll_scenario els c) =
     failedScenarios c + length (filter (\<lambda>el. spec_verdict el = Failed) (filter is_scenario els))"
  "skippedScenarios (fold afterAll_scenario els c) =
     skippedScenarios c + length (filter (\<lambda>el. spec_verdict el = Skipped) (filter is_scenario els))"
  "passedScenarios (fold afterAll_scenario els c) =
     passedScenarios c + length (filter (\<lambda>el. spec_verdict el = Passed) (filter is_scenario els))"
  by (induction els arbitrary: c; simp add: afterAll_scenario_counts)+

lemma afterAll_report_counts:
  "totalScenarios (fold (\<lambda>feature c. case ft_elements feature of None \<Rightarrow> c
        | Some elements \<Rightarrow> fold afterAll_scenario elements c) report c) =
     totalScenarios c + length (spec_scenarios report)"
  "failedScenarios (fold (\<lambda>feature c. case ft_elements feature of None \<Rightarrow> c
        | Some elements \<Rightarrow> fold afterAll_scenario elements c) report c) =
     failedScenarios c + spec_count Failed report"
  "skippedScenarios (fold (\<lambda>feature c. case ft_elements feature of None \<Rightarrow> c
        | Some elements \<Rightarrow> fold afterAll_scenario elements c) report c) =
     skippedScenarios c + spec_count Skipped report"
  "passedScenarios (fold (\<lambda>feature c. case ft_elements feature of None \<Rightarrow> c
        | Some elements \<Rightarrow> fold afterAll_scenario elements c) report c) =
     passedScenarios c + spec_count Passed report"
  by (induction report arbitrary: c;
      simp add: afterAll_elements_counts spec_scenarios_def spec_count_def elements_of_def
        split: option.split)+

text \<open>
  Claim C10. On every report the four scenario counts of the summary loop of the AfterAll
  hook equal the scenario counts of \<open>calculateSummary\<close>.
\<close>

theorem afterAll_agrees_with_calculateSummary:
  "totalScenarios (afterAll_summary report) = scenarios_total (calculateSummary report)
   \<and> passedScenarios (afterAll_summary report) = scenarios_passed (calculateSummary report)
   \<and> failedScenarios (afterAll_summary report) = scenarios_failed (calculateSummary report)
   \<and> skippedScenarios (afterAll_summary report) = scenarios_skipped (calculateSummary report)"
proof -
  have "totalScenarios (afterAll_summary report) = length (spec_scenarios report)"
    and "passedScenarios (afterAll_summary report) = spec_count Passed report"
    and "failedScenarios (afterAll_summary report) = spec_count Failed report"
    and "skippedScenarios (afterAll_summary report) = spec_count Skipped report"
    by (simp_all add: afterAll_summary_def afterAll_report_counts)
  then show ?thesis
    by (simp add: calculateSummary_counts)
qed

section \<open>Properties of the browser lifecycle\<close>

lemma one_browser_console_log [simp]: "one_browser (console_log msg w) = one_browser w"
  by (simp add: one_browser_def console_log_def split: option.split)



lemma cleanup_no_throw: "fst (cleanup cfg c w) = None"
  by (cases "cleanup_body cfg c w"; cases "fst (cleanup_body cfg c w)") (simp_all add: cleanup_def)



lemma one_browser_currentFeatureUri [simp]:
  "one_browser (w\<lparr>currentFeatureUri := u\<rparr>) = one_browser w"
  by (simp add: one_browser_def split: option.split)







lemma ready_world_eval:
  "m_browser ready_world = Some 0" "m_context ready_world = Some 1" "m_page ready_world = Some 2"
  "m_isInitialized ready_world" "currentFeatureUri ready_world = Some ''features/a.feature''"
  "live ready_world = [0]" "fresh ready_world = 3" "peak ready_world = 1"
  by (simp_all add: ready_world_def beforeFeature_def Let_def and_then_def
        external_def initializeBrowser_def createContext_def createPage_def launch_effect_def
        console_log_def all_ok_def initial_world_def feature_uri_def scenario_of_def cfg0_def
        getBrowserConfig_def)








text \<open>
  Claim C5. \<open>takeScreenshot\<close> never throws: it returns \<open>null\<close> when the page is not
  initialized or the screenshot call fails, and the path otherwise. \<open>cleanup\<close> never
  throws: an error of the trace stop or of a close is caught and logged.
\<close>

theorem screenshot_and_cleanup_never_throw:
  "fst (takeScreenshot e name fullPage isoString c w) =
     Inr (if m_page w = None \<or> c_screenshot c \<noteq> None then None
          else Some (screenshot_path name isoString))
   \<and> fst (cleanup cfg c w) = None
   \<and> (fst (cleanup_body cfg c w) = Some err \<longrightarrow>
        console (snd (cleanup cfg c w)) =
          console (snd (cleanup_body cfg c w)) @
            [''Error during browser cleanup: '' @ error_message err])"
proof (intro conjI impI)
  show "fst (takeScreenshot e name fullPage isoString c w) =
     Inr (if m_page w = None \<or> c_screenshot c \<noteq> None then None
          else Some (screenshot_path name isoString))"
    by (cases "c_screenshot c")
      (simp_all add: takeScreenshot_def takeScreenshot_body_def external_def Let_def)
next
  show "fst (cleanup cfg c w) = None"
    by (rule cleanup_no_throw)
next
  assume "fst (cleanup_body cfg c w) = Some err"
  then show "console (snd (cleanup cfg c w)) =
          console (snd (cleanup_body cfg c w)) @
            [''Error during browser cleanup: '' @ error_message err]"
    by (cases "cleanup_body cfg c w") (simp add: cleanup_def console_log_def)
qed

theorem screenshot_and_cleanup_never_throw_witness:
  "fst (takeScreenshot Map.empty ''failed-login'' True ''2024-01-01T10:00:00.000Z''
          screenshot_fails ready_world) = Inr None
   \<and> fst (takeScreenshot Map.empty ''failed-login'' True ''2024-01-01T10:00:00.000Z''
          all_ok ready_world) =
       Inr (Some ''reports/screenshots/failed-login-2024-01-01T10-00-00-000Z.png'')
   \<and> fst (takeScreenshot Map.empty ''failed-login'' True ''2024-01-01T10:00:00.000Z''
          all_ok initial_world) = Inr None
   \<and> fst (cleanup_body cfg0 close_fails ready_world) = Some (Error ''Target closed'')
   \<and> fst (cleanup cfg0 close_fails ready_world) = None
   \<and> console (snd (cleanup cfg0 close_fails ready_world)) =
       console (snd (cleanup_body cfg0 close_fails ready_world)) @
         [''Error during browser cleanup: Target closed'']"
proof -
  have body: "fst (cleanup_body cfg0 close_fails ready_world) = Some (Error ''Target closed'')"
    by (simp add: cleanup_body_def and_then_def external_def close_fails_def all_ok_def
        ready_world_eval cfg0_def getBrowserConfig_def)
  show ?thesis
    using body
      screenshot_and_cleanup_never_throw[of Map.empty "''failed-login''" True
        "''2024-01-01T10:00:00.000Z''" screenshot_fails ready_world cfg0 "Error ''Target closed''"]
      screenshot_and_cleanup_never_throw[of Map.empty "''failed-login''" True
        "''2024-01-01T10:00:00.000Z''" all_ok ready_world cfg0 "Error ''Target closed''"]
      screenshot_and_cleanup_never_throw[of Map.empty "''failed-login''" True
        "''2024-01-01T10:00:00.000Z''" all_ok initial_world cfg0 "Error ''Target closed''"]
      screenshot_and_cleanup_never_throw[of Map.empty "''failed-login''" True
        "''2024-01-01T10:00:00.000Z''" close_fails ready_world cfg0 "Error ''Target closed''"]
    by (simp add: screenshot_fails_def all_ok_def ready_world_eval initial_world_def
        screenshot_path_def)
qed

text \<open>
  Claim C6 says that a failed navigation is thrown again with an enriched message. The
  error thrown by \<open>navigateToPage\<close> is the error of the navigation itself, unchanged.
\<close>

theorem navigate_rethrows_counterexample:
  "c_goto goto_fails = Some (Error ''net::ERR_CONNECTION_REFUSED'')
   \<and> fst (navigateToPage Map.empty cfg0 ''/login'' goto_fails ready_world) =
       Some (Error ''net::ERR_CONNECTION_REFUSED'')"
  by (simp add: navigateToPage_def Let_def external_def goto_fails_def all_ok_def ready_world_eval)

text \<open>
  Claim C6, amended. For every URL, when the page is initialized and the navigation fails,
  the error is caught, a message naming the full URL attempted is written to the console,
  and the same error is thrown again.
\<close>

theorem navigate_logs_and_rethrows:
  assumes "m_page w \<noteq> None" and "c_goto c = Some err"
  shows "navigateToPage e cfg url c w =
     (Some err,
      console_log (''Navigation failed to '' @ full_url e url @ '': '' @ error_message err) w)"
  using assms by (auto simp: navigateToPage_def Let_def external_def full_url_def)

theorem navigate_logs_and_rethrows_witness:
  "m_page ready_world \<noteq> None
   \<and> c_goto goto_fails = Some (Error ''net::ERR_CONNECTION_REFUSED'')
   \<and> fst (navigateToPage Map.empty cfg0 ''/login'' goto_fails ready_world) =
       Some (Error ''net::ERR_CONNECTION_REFUSED'')
   \<and> last (console (snd (navigateToPage Map.empty cfg0 ''/login'' goto_fails ready_world))) =
       ''Navigation failed to http://localhost:3000/login: net::ERR_CONNECTION_REFUSED''"
proof -
  have h: "m_page ready_world \<noteq> None"
    "c_goto goto_fails = Some (Error ''net::ERR_CONNECTION_REFUSED'')"
    by (simp_all add: ready_world_eval goto_fails_def all_ok_def)
  show ?thesis
    using h navigate_logs_and_rethrows[OF h, of Map.empty cfg0 "''/login''"]
    by (simp add: console_log_def full_url_def startsWith_def getTestConfig_def or_default_def)
qed

end
